theory Spec2Isabelle
  imports Main "HOL-Library.Sublist"
begin

section \<open>Identifier codec of the k8s manifest provider (main.go)\<close>

text \<open>
  Go strings are byte sequences; they are modelled as \<open>string\<close> (a list of 8-bit
  characters).  The functions of the Go standard library that the program calls
  (\<open>strings.Split\<close>, \<open>strings.Join\<close>, \<open>strings.TrimSpace\<close>, \<open>url.PathUnescape\<close>) are
  modelled from their documented behaviour.
\<close>

subsection \<open>strings.Split and strings.Join\<close>

text \<open>
  \<open>strings.Split(s, sep)\<close> cuts \<open>s\<close> at every (leftmost, non-overlapping) occurrence of
  \<open>sep\<close>; the result always has at least one element.  \<open>Split_go sep cur s\<close> is the scan:
  \<open>cur\<close> holds the bytes of the current piece read so far.  The program passes only the
  non-empty separators \<open>"/"\<close> and \<open>" "\<close>; the empty separator (which in Go explodes the
  string into UTF-8 sequences) is not modelled and never cuts here.
\<close>

function Split_go :: "string \<Rightarrow> string \<Rightarrow> string \<Rightarrow> string list" where
  "Split_go sep cur s =
     (if s = [] then [cur]
      else if sep \<noteq> [] \<and> prefix sep s then cur # Split_go sep [] (drop (length sep) s)
      else Split_go sep (cur @ [hd s]) (tl s))"
  by pat_completeness auto
termination
  by (relation "measure (\<lambda>(sep, cur, s). length s)") auto

declare Split_go.simps [simp del]

definition Split :: "string \<Rightarrow> string \<Rightarrow> string list" where
  "Split s sep = Split_go sep [] s"

fun Join :: "string list \<Rightarrow> string \<Rightarrow> string" where
  "Join [] sep = []"
| "Join [a] sep = a"
| "Join (a # b # r) sep = a @ sep @ Join (b # r) sep"

subsection \<open>url.PathUnescape\<close>

definition ishex :: "char \<Rightarrow> bool" where
  "ishex c = (let n = (of_char c :: nat) in
     (48 \<le> n \<and> n \<le> 57) \<or> (97 \<le> n \<and> n \<le> 102) \<or> (65 \<le> n \<and> n \<le> 70))"

definition unhex :: "char \<Rightarrow> nat" where
  "unhex c = (let n = (of_char c :: nat) in
     if 48 \<le> n \<and> n \<le> 57 then n - 48
     else if 97 \<le> n \<and> n \<le> 102 then n - 97 + 10
     else if 65 \<le> n \<and> n \<le> 70 then n - 65 + 10
     else 0)"

text \<open>
  \<open>unescape s\<close> in path-segment mode: every \<open>%\<close> must be followed by two hexadecimal
  digits, and \<open>%XY\<close> becomes the byte \<open>16 * X + Y\<close>; \<open>+\<close> is left alone.  At the first
  malformed escape the result is \<open>Inl\<close> of the offending fragment (at most three bytes,
  Go's \<open>EscapeError\<close>).
\<close>

fun unescape :: "string \<Rightarrow> string + string" where
  "unescape [] = Inr []"
| "unescape (c # cs) =
     (if c = CHR ''%'' then
        (case cs of
           h1 # h2 # rest \<Rightarrow>
             if ishex h1 \<and> ishex h2
             then (case unescape rest of
                     Inl e \<Rightarrow> Inl e
                   | Inr t \<Rightarrow> Inr (char_of (unhex h1 * 16 + unhex h2) # t))
             else Inl (take 3 (c # cs))
         | _ \<Rightarrow> Inl (take 3 (c # cs)))
      else (case unescape cs of Inl e \<Rightarrow> Inl e | Inr t \<Rightarrow> Inr (c # t)))"

text \<open>
  \<open>url.PathUnescape\<close> returns a pair, as every fallible Go function does: on an error
  the string is \<open>""\<close> and the error is set.
\<close>

definition PathUnescape :: "string \<Rightarrow> string \<times> string option" where
  "PathUnescape s = (case unescape s of Inl e \<Rightarrow> ([], Some e) | Inr t \<Rightarrow> (t, None))"

subsection \<open>resourceFromSelflink\<close>

text \<open>
  The loop \<open>for i, part := range parts\<close> that looks for the namespace, started at index
  \<open>i\<close>; \<open>namespace\<close> is the empty string when the loop ends without a \<open>break\<close>.
\<close>

function namespace_loop :: "string list \<Rightarrow> nat \<Rightarrow> string" where
  "namespace_loop parts i =
     (if i < length parts
      then (if parts ! i = ''namespaces'' \<and> length parts > i + 1
            then parts ! (i + 1)
            else namespace_loop parts (i + 1))
      else [])"
  by pat_completeness auto
termination
  by (relation "measure (\<lambda>(parts, i). length parts - i)") auto

declare namespace_loop.simps [simp del]

text \<open>
  The short declaration \<open>resource, err := url.PathUnescape(resource)\<close> assigns the named
  result \<open>resource\<close> again (only \<open>err\<close> is new), so both returns after it give back what
  \<open>PathUnescape\<close> returned.
\<close>

definition resourceFromSelflink :: "string \<Rightarrow> string \<times> string \<times> bool" where
  "resourceFromSelflink s =
     (let parts = Split s ''/'' in
      if length parts < 2 then ([], [], False)
      else
        let resource = parts ! (length parts - 2) @ ''/'' @ parts ! (length parts - 1);
            namespace = namespace_loop parts 0;
            (resource', err) = PathUnescape resource
        in if err \<noteq> None then (resource', namespace, False)
           else (resource', namespace, True))"

subsection \<open>strings.TrimSpace\<close>

text \<open>
  The UTF-8 encodings of the code points for which \<open>unicode.IsSpace\<close> holds: U+0009 to
  U+000D, U+0020, U+0085, U+00A0, U+1680, U+2000 to U+200A, U+2028, U+2029, U+202F,
  U+205F and U+3000.
\<close>

definition spaceRunes :: "string list" where
  "spaceRunes =
     [[CHR 0x09], [CHR 0x0A], [CHR 0x0B], [CHR 0x0C], [CHR 0x0D], [CHR 0x20],
      [CHR 0xC2, CHR 0x85], [CHR 0xC2, CHR 0xA0],
      [CHR 0xE1, CHR 0x9A, CHR 0x80],
      [CHR 0xE2, CHR 0x80, CHR 0x80], [CHR 0xE2, CHR 0x80, CHR 0x81],
      [CHR 0xE2, CHR 0x80, CHR 0x82], [CHR 0xE2, CHR 0x80, CHR 0x83],
      [CHR 0xE2, CHR 0x80, CHR 0x84], [CHR 0xE2, CHR 0x80, CHR 0x85],
      [CHR 0xE2, CHR 0x80, CHR 0x86], [CHR 0xE2, CHR 0x80, CHR 0x87],
      [CHR 0xE2, CHR 0x80, CHR 0x88], [CHR 0xE2, CHR 0x80, CHR 0x89],
      [CHR 0xE2, CHR 0x80, CHR 0x8A],
      [CHR 0xE2, CHR 0x80, CHR 0xA8], [CHR 0xE2, CHR 0x80, CHR 0xA9],
      [CHR 0xE2, CHR 0x80, CHR 0xAF], [CHR 0xE2, CHR 0x81, CHR 0x9F],
      [CHR 0xE3, CHR 0x80, CHR 0x80]]"

text \<open>The width in bytes of the white-space rune a string starts (ends) with, 0 if none.\<close>

definition leadingSpace :: "string \<Rightarrow> nat" where
  "leadingSpace s = (case filter (\<lambda>p. prefix p s) spaceRunes of [] \<Rightarrow> 0 | p # _ \<Rightarrow> length p)"

definition trailingSpace :: "string \<Rightarrow> nat" where
  "trailingSpace s = (case filter (\<lambda>p. suffix p s) spaceRunes of [] \<Rightarrow> 0 | p # _ \<Rightarrow> length p)"

function TrimLeftSpace :: "string \<Rightarrow> string" where
  "TrimLeftSpace s =
     (if leadingSpace s = 0 then s else TrimLeftSpace (drop (leadingSpace s) s))"
  by pat_completeness auto
termination
proof (relation "measure length")
  show "wf (measure length)" by simp
next
  fix s :: string
  assume pos: "leadingSpace s \<noteq> 0"
  have "leadingSpace s \<le> length s"
  proof (cases "filter (\<lambda>p. prefix p s) spaceRunes")
    case Nil
    then show ?thesis by (simp add: leadingSpace_def)
  next
    case (Cons p ps)
    then have "p \<in> set (filter (\<lambda>p. prefix p s) spaceRunes)" by simp
    then have "prefix p s" by simp
    then have "length p \<le> length s" by (rule prefix_length_le)
    with Cons show ?thesis by (simp add: leadingSpace_def)
  qed
  with pos show "(drop (leadingSpace s) s, s) \<in> measure length" by simp
qed

function TrimRightSpace :: "string \<Rightarrow> string" where
  "TrimRightSpace s =
     (if trailingSpace s = 0 then s
      else TrimRightSpace (take (length s - trailingSpace s) s))"
  by pat_completeness auto
termination
proof (relation "measure length")
  show "wf (measure length)" by simp
next
  fix s :: string
  assume pos: "trailingSpace s \<noteq> 0"
  have "trailingSpace s \<le> length s"
  proof (cases "filter (\<lambda>p. suffix p s) spaceRunes")
    case Nil
    then show ?thesis by (simp add: trailingSpace_def)
  next
    case (Cons p ps)
    then have "p \<in> set (filter (\<lambda>p. suffix p s) spaceRunes)" by simp
    then have "suffix p s" by simp
    then have "length p \<le> length s" by (rule suffix_length_le)
    with Cons show ?thesis by (simp add: trailingSpace_def)
  qed
  with pos show "(take (length s - trailingSpace s) s, s) \<in> measure length" by simp
qed

declare TrimLeftSpace.simps [simp del] TrimRightSpace.simps [simp del]

definition TrimSpace :: "string \<Rightarrow> string" where
  "TrimSpace s = TrimRightSpace (TrimLeftSpace s)"

section \<open>The provider\<close>

subsection \<open>Data\<close>

record config =
  kubeconfig :: string
  kubeconfigContent :: string
  kubeconfigContext :: string

text \<open>
  \<open>schema.ResourceData\<close>, as far as the handlers use it: the identity (\<open>d.Id()\<close>,
  \<open>d.SetId\<close>) and the \<open>content\<close> attribute.
\<close>

record ResourceData =
  Id_str :: string
  content :: string

text \<open>
  \<open>exec.Cmd\<close>: \<open>exec.Command(name, args...)\<close> sets \<open>Args\<close> to the name followed by the
  arguments.  (The lookup of the name in \<open>PATH\<close>, which only changes the text of
  \<open>cmd.Path\<close>, is left out.)
\<close>

record Cmd =
  Path :: string
  Args :: "string list"
  Stdin :: "string option"

definition Command :: "string \<Rightarrow> string list \<Rightarrow> Cmd" where
  "Command name args = \<lparr>Path = name, Args = name # args, Stdin = None\<rparr>"

text \<open>
  The errors the program builds with \<open>fmt.Errorf\<close>, one constructor for each format
  string, holding the values formatted into it.
\<close>

datatype error =
    ConfigConflict
  | CreatingKubeconfigFile string
  | WritingKubeconfig string
  | CompletingKubeconfigWrite string
  | DeterminingKubeconfig error
  | CommandFailed string string
  | CommandFailedStderr string string string
  | DecodingResponse string
  | NoResourcesCreated
  | CouldNotParseSelflink string
  | InvalidResourceID string
  | errorList "error list"

subsection \<open>The outside world\<close>

text \<open>
  Everything the program does to the outside is logged, in order, in the \<open>world\<close>: the
  subprocesses it runs and the temporary files it creates, writes, closes and removes.
  What the outside answers is given by an environment \<open>env\<close>; each answer may depend on
  everything that happened before.  \<open>json_items\<close> stands for \<open>json.Unmarshal\<close> into the
  \<open>data\<close> struct of \<open>resourceManifestCreate\<close>: a decoding error, or the \<open>selflink\<close> of each
  item in order (empty where the field is absent).
\<close>

datatype event =
    Exec Cmd
  | TempFile "string + string"
  | WriteString string string
  | Close string
  | Remove string

type_synonym world = "event list"

record exec_result =
  exit_err :: "string option"
  stderr_text :: string
  stdout_text :: string

record env =
  temp_file :: "world \<Rightarrow> string + string"
  write_string :: "world \<Rightarrow> string \<Rightarrow> string \<Rightarrow> string option"
  close_file :: "world \<Rightarrow> string \<Rightarrow> string option"
  cmd_run :: "world \<Rightarrow> Cmd \<Rightarrow> exec_result"
  json_items :: "string \<Rightarrow> string + string list"

definition is_Exec :: "event \<Rightarrow> bool" where
  "is_Exec ev = (case ev of Exec c \<Rightarrow> True | _ \<Rightarrow> False)"

text \<open>The subprocesses run so far.\<close>

definition subprocesses :: "world \<Rightarrow> event list" where
  "subprocesses w = filter is_Exec w"

subsection \<open>run, kubeconfigPath, kubectl\<close>

text \<open>
  \<open>run\<close> returns the error; the second component is what the subprocess wrote to its
  standard output (the caller's \<open>stdout\<close> buffer, when it attached one).
\<close>

definition run :: "env \<Rightarrow> Cmd \<Rightarrow> world \<Rightarrow> (error option \<times> string) \<times> world" where
  "run env cmd w =
     (let r = cmd_run env w cmd; w' = w @ [Exec cmd] in
      case exit_err r of
        Some err \<Rightarrow>
          let cmdStr = Path cmd @ '' '' @ Join (Args cmd) '' '' in
          if length (stderr_text r) = 0
          then ((Some (CommandFailed cmdStr err), stdout_text r), w')
          else ((Some (CommandFailedStderr cmdStr err (stderr_text r)), stdout_text r), w')
      | None \<Rightarrow> ((None, stdout_text r), w'))"

text \<open>
  The cleanup function is \<open>None\<close> for \<open>func() {}\<close> and \<open>Some name\<close> for
  \<open>func() { os.Remove(name) }\<close>.
\<close>

definition cleanup :: "string option \<Rightarrow> world \<Rightarrow> world" where
  "cleanup f w = (case f of None \<Rightarrow> w | Some name \<Rightarrow> w @ [Remove name])"

definition kubeconfigPath ::
  "env \<Rightarrow> config \<Rightarrow> world \<Rightarrow> (string \<times> string option \<times> error option) \<times> world" where
  "kubeconfigPath env m w =
     (if kubeconfig m \<noteq> [] \<and> kubeconfigContent m \<noteq> []
      then ((kubeconfig m, None, Some ConfigConflict), w)
      else if kubeconfigContent m \<noteq> [] then
        (case temp_file env w of
           Inl err \<Rightarrow>
             (([], None, Some (CreatingKubeconfigFile err)), cleanup None (w @ [TempFile (Inl err)]))
         | Inr name \<Rightarrow>
             let w1 = w @ [TempFile (Inr name)];
                 cleanupFunc = Some name
             in (case write_string env w1 name (kubeconfigContent m) of
                   Some err \<Rightarrow>
                     (([], cleanupFunc, Some (WritingKubeconfig err)),
                      cleanup cleanupFunc (w1 @ [WriteString name (kubeconfigContent m)]))
                 | None \<Rightarrow>
                     let w2 = w1 @ [WriteString name (kubeconfigContent m)] in
                     (case close_file env w2 name of
                        Some err \<Rightarrow>
                          (([], cleanupFunc, Some (CompletingKubeconfigWrite err)),
                           cleanup cleanupFunc (w2 @ [Close name]))
                      | None \<Rightarrow>
                          if name \<noteq> []
                          then ((name, cleanupFunc, None), w2 @ [Close name])
                          else (([], cleanupFunc, None), w2 @ [Close name]))))
      else if kubeconfig m \<noteq> [] then ((kubeconfig m, None, None), w)
      else (([], None, None), w))"

definition kubectl :: "config \<Rightarrow> string \<Rightarrow> string list \<Rightarrow> Cmd" where
  "kubectl m path args =
     (let args1 = (if path \<noteq> [] then [''--kubeconfig'', path] @ args else args);
          context = kubeconfigContext m;
          args2 = (if context \<noteq> [] then [''--context'', context] @ args1 else args1)
      in Command ''kubectl'' args2)"

definition resourceIDSelflinkDelim :: string where
  "resourceIDSelflinkDelim = '' ''"

subsection \<open>Create and Update\<close>

text \<open>
  The loop of \<open>resourceManifestCreate\<close> over \<open>data.Items\<close>: \<open>None\<close> is the early return
  at an item whose self-link is empty.
\<close>

fun collect_selflinks :: "string list \<Rightarrow> string list \<Rightarrow> string list option" where
  "collect_selflinks [] selflinks = Some selflinks"
| "collect_selflinks (selflink # items) selflinks =
     (if selflink = [] then None else collect_selflinks items (selflinks @ [selflink]))"

text \<open>
  A handler gets the resource data \<open>d\<close> by reference; the model returns the error, the
  resource data as the handler leaves it, and the world.  The deferred \<open>cleanup()\<close> runs
  at every return after the \<open>defer\<close> statement.
\<close>

definition resourceManifestCreate ::
  "env \<Rightarrow> config \<Rightarrow> ResourceData \<Rightarrow> world \<Rightarrow> error option \<times> ResourceData \<times> world" where
  "resourceManifestCreate env m d w =
     (case kubeconfigPath env m w of
        ((path, cleanupFunc, Some err), w0) \<Rightarrow> (Some (DeterminingKubeconfig err), d, w0)
      | ((path, cleanupFunc, None), w0) \<Rightarrow>
          (case run env ((kubectl m path [''apply'', ''-f'', ''-''])\<lparr>Stdin := Some (content d)\<rparr>) w0 of
             ((Some err, out1), w1) \<Rightarrow> (Some err, d, cleanup cleanupFunc w1)
           | ((None, out1), w1) \<Rightarrow>
               (case run env ((kubectl m path [''get'', ''-f'', ''-'', ''-o'', ''json''])
                                \<lparr>Stdin := Some (content d)\<rparr>) w1 of
                  ((Some err, stdout), w2) \<Rightarrow> (Some err, d, cleanup cleanupFunc w2)
                | ((None, stdout), w2) \<Rightarrow>
                    (case json_items env stdout of
                       Inl err \<Rightarrow> (Some (DecodingResponse err), d, cleanup cleanupFunc w2)
                     | Inr items \<Rightarrow>
                         if length items = 0
                         then (Some NoResourcesCreated, d, cleanup cleanupFunc w2)
                         else (case collect_selflinks items [] of
                                 None \<Rightarrow>
                                   (Some (CouldNotParseSelflink stdout), d, cleanup cleanupFunc w2)
                               | Some selflinks \<Rightarrow>
                                   (None,
                                    d\<lparr>Id_str := Join selflinks resourceIDSelflinkDelim\<rparr>,
                                    cleanup cleanupFunc w2))))))"

definition resourceManifestUpdate ::
  "env \<Rightarrow> config \<Rightarrow> ResourceData \<Rightarrow> world \<Rightarrow> error option \<times> ResourceData \<times> world" where
  "resourceManifestUpdate env m d w =
     (case kubeconfigPath env m w of
        ((path, cleanupFunc, Some err), w0) \<Rightarrow> (Some (DeterminingKubeconfig err), d, w0)
      | ((path, cleanupFunc, None), w0) \<Rightarrow>
          (case run env ((kubectl m path [''apply'', ''-f'', ''-''])\<lparr>Stdin := Some (content d)\<rparr>) w0 of
             ((r, out), w1) \<Rightarrow> (r, d, cleanup cleanupFunc w1)))"

subsection \<open>Delete\<close>

definition deleteResource :: "env \<Rightarrow> config \<Rightarrow> world \<Rightarrow> string \<Rightarrow> error option \<times> world" where
  "deleteResource env m w selflink =
     (case resourceFromSelflink selflink of
        (resource, namespace, ok) \<Rightarrow>
          if \<not> ok then (Some (InvalidResourceID selflink), w)
          else
            let args = [''delete'', resource];
                args = (if namespace \<noteq> [] then args @ [''-n'', namespace] else args)
            in (case kubeconfigPath env m w of
                  ((path, cleanupFunc, Some err), w0) \<Rightarrow> (Some (DeterminingKubeconfig err), w0)
                | ((path, cleanupFunc, None), w0) \<Rightarrow>
                    (case run env (kubectl m path args) w0 of
                       ((r, out), w1) \<Rightarrow> (r, cleanup cleanupFunc w1))))"

text \<open>
  The loop \<open>for i := len(resources)-1; i >= 0; i--\<close>.  The counter of the model is
  \<open>i + 1\<close>, so that the loop ends at 0; it starts at \<open>len(resources)\<close>.
\<close>

fun delete_loop ::
  "env \<Rightarrow> config \<Rightarrow> string list \<Rightarrow> nat \<Rightarrow> error list \<times> world \<Rightarrow> error list \<times> world" where
  "delete_loop env m resources 0 st = st"
| "delete_loop env m resources (Suc i) (errs, w) =
     (case deleteResource env m w (resources ! i) of
        (Some err, w') \<Rightarrow> delete_loop env m resources i (errs @ [err], w')
      | (None, w') \<Rightarrow> delete_loop env m resources i (errs, w'))"

definition resourceManifestDelete ::
  "env \<Rightarrow> config \<Rightarrow> ResourceData \<Rightarrow> world \<Rightarrow> error option \<times> ResourceData \<times> world" where
  "resourceManifestDelete env m d w =
     (let resources = Split (Id_str d) resourceIDSelflinkDelim in
      case delete_loop env m resources (length resources) ([], w) of
        (errs, w') \<Rightarrow> if length errs \<noteq> 0 then (Some (errorList errs), d, w') else (None, d, w'))"

subsection \<open>Read\<close>

definition readResource ::
  "env \<Rightarrow> config \<Rightarrow> ResourceData \<Rightarrow> world \<Rightarrow> string \<Rightarrow> error option \<times> ResourceData \<times> world" where
  "readResource env m d w selflink =
     (case resourceFromSelflink selflink of
        (resource, namespace, ok) \<Rightarrow>
          if \<not> ok then (Some (InvalidResourceID selflink), d, w)
          else
            let args = [''get'', ''--ignore-not-found'', resource];
                args = (if namespace \<noteq> [] then args @ [''-n'', namespace] else args)
            in (case kubeconfigPath env m w of
                  ((path, cleanupFunc, Some err), w0) \<Rightarrow> (Some (DeterminingKubeconfig err), d, w0)
                | ((path, cleanupFunc, None), w0) \<Rightarrow>
                    (case run env (kubectl m path args) w0 of
                       ((Some err, stdout), w1) \<Rightarrow> (Some err, d, cleanup cleanupFunc w1)
                     | ((None, stdout), w1) \<Rightarrow>
                         if TrimSpace stdout = []
                         then (None, d\<lparr>Id_str := []\<rparr>, cleanup cleanupFunc w1)
                         else (None, d, cleanup cleanupFunc w1))))"

text \<open>
  The loop of \<open>resourceManifestRead\<close>; its range expression, the split of the identity,
  is evaluated once, before the first iteration.
\<close>

fun read_loop ::
  "env \<Rightarrow> config \<Rightarrow> string list \<Rightarrow> error list \<times> ResourceData \<times> world
     \<Rightarrow> error list \<times> ResourceData \<times> world" where
  "read_loop env m [] st = st"
| "read_loop env m (selflink # rest) (errs, d, w) =
     (case readResource env m d w selflink of
        (Some err, d', w') \<Rightarrow> read_loop env m rest (errs @ [err], d', w')
      | (None, d', w') \<Rightarrow> read_loop env m rest (errs, d', w'))"

definition resourceManifestRead ::
  "env \<Rightarrow> config \<Rightarrow> ResourceData \<Rightarrow> world \<Rightarrow> error option \<times> ResourceData \<times> world" where
  "resourceManifestRead env m d w =
     (case read_loop env m (Split (Id_str d) resourceIDSelflinkDelim) ([], d, w) of
        (errs, d', w') \<Rightarrow> if length errs \<noteq> 0 then (Some (errorList errs), d', w') else (None, d', w'))"

section \<open>Notions for stating the properties\<close>

text \<open>What Read and Delete return for the errors they collected.\<close>

definition aggregate :: "error list \<Rightarrow> error option" where
  "aggregate errs = (if errs = [] then None else Some (errorList errs))"

text \<open>
  The attempts of a run over a list of locators: for each locator in turn, the locator
  and what \<open>deleteResource\<close> (\<open>readResource\<close>) returned for it, called in the world (and
  with the resource data) that the attempt before it left.
\<close>

fun delete_attempts ::
  "env \<Rightarrow> config \<Rightarrow> world \<Rightarrow> string list \<Rightarrow> (string \<times> error option \<times> world) list" where
  "delete_attempts env m w [] = []"
| "delete_attempts env m w (s # ss) =
     (case deleteResource env m w s of (r, w') \<Rightarrow> (s, r, w') # delete_attempts env m w' ss)"

fun read_attempts ::
  "env \<Rightarrow> config \<Rightarrow> ResourceData \<Rightarrow> world \<Rightarrow> string list
     \<Rightarrow> (string \<times> error option \<times> ResourceData \<times> world) list" where
  "read_attempts env m d w [] = []"
| "read_attempts env m d w (s # ss) =
     (case readResource env m d w s of
        (r, d', w') \<Rightarrow> (s, r, d', w') # read_attempts env m d' w' ss)"

text \<open>The errors of the attempts that failed, in order.\<close>

fun errors_of :: "(string \<times> error option \<times> 'a) list \<Rightarrow> error list" where
  "errors_of [] = []"
| "errors_of ((s, None, x) # as) = errors_of as"
| "errors_of ((s, Some err, x) # as) = err # errors_of as"

text \<open>The state that the last attempt left; the starting state when there was none.\<close>

definition state_after :: "'a \<Rightarrow> (string \<times> error option \<times> 'a) list \<Rightarrow> 'a" where
  "state_after x as = (if as = [] then x else snd (snd (last as)))"

text \<open>
  The error that one locator contributes when the configuration has both a kubeconfig
  path and inline content.
\<close>

definition conflict_or_invalid :: "string \<Rightarrow> error" where
  "conflict_or_invalid selflink =
     (if snd (snd (resourceFromSelflink selflink))
      then DeterminingKubeconfig ConfigConflict
      else InvalidResourceID selflink)"

text \<open>Whether an error is, wraps or contains the configuration-conflict error.\<close>

fun reports_conflict :: "error \<Rightarrow> bool" where
  "reports_conflict ConfigConflict = True"
| "reports_conflict (DeterminingKubeconfig err) = reports_conflict err"
| "reports_conflict (errorList errs) = list_ex reports_conflict errs"
| "reports_conflict _ = False"

subsection \<open>Concrete configurations, environments and resources\<close>

definition cfg_plain :: config where
  "cfg_plain = \<lparr>kubeconfig = [], kubeconfigContent = [], kubeconfigContext = []\<rparr>"

definition cfg_path_context :: config where
  "cfg_path_context = \<lparr>kubeconfig = ''/p'', kubeconfigContent = [], kubeconfigContext = ''ctx''\<rparr>"

definition cfg_conflict :: config where
  "cfg_conflict =
     \<lparr>kubeconfig = ''/p'', kubeconfigContent = ''apiVersion: v1'', kubeconfigContext = []\<rparr>"

definition ok_result :: "string \<Rightarrow> exec_result" where
  "ok_result out = \<lparr>exit_err = None, stderr_text = [], stdout_text = out\<rparr>"

definition failed_result :: exec_result where
  "failed_result = \<lparr>exit_err = Some ''exit status 1'', stderr_text = ''boom'', stdout_text = []\<rparr>"

text \<open>Every subprocess succeeds and prints nothing; the decoded item list is empty.\<close>

definition env_quiet :: env where
  "env_quiet =
     \<lparr>temp_file = (\<lambda>w. Inr ''/tmp/kubeconfig_1''),
      write_string = (\<lambda>w name text. None),
      close_file = (\<lambda>w name. None),
      cmd_run = (\<lambda>w cmd. ok_result []),
      json_items = (\<lambda>out. Inr [])\<rparr>"

text \<open>Every subprocess succeeds; the structured get reports two objects.\<close>

definition env_two_items :: env where
  "env_two_items =
     env_quiet\<lparr>json_items :=
       (\<lambda>out. Inr [''api/v1/namespaces/ns/pods/a'', ''api/v1/namespaces/ns/pods/b''])\<rparr>"

text \<open>
  Every subprocess that names \<open>pods/b\<close> fails; every other one succeeds and prints a line.
\<close>

definition env_b_fails :: env where
  "env_b_fails =
     env_quiet\<lparr>cmd_run :=
       (\<lambda>w cmd. if ''pods/b'' \<in> set (Args cmd) then failed_result else ok_result ''pod/a 1/1'')\<rparr>"

text \<open>
  The query for \<open>pods/b\<close> prints only white space; every other subprocess prints a line.
\<close>

definition env_b_blank :: env where
  "env_b_blank =
     env_quiet\<lparr>cmd_run :=
       (\<lambda>w cmd. if ''pods/b'' \<in> set (Args cmd) then ok_result [CHR 0x20, CHR 0x0A]
                 else ok_result ''pod/a 1/1'')\<rparr>"

definition d_new :: ResourceData where
  "d_new = \<lparr>Id_str = [], content = ''kind: Pod''\<rparr>"

definition d_short :: ResourceData where
  "d_short = \<lparr>Id_str = ''short'', content = ''kind: Pod''\<rparr>"

definition d_ab :: ResourceData where
  "d_ab = \<lparr>Id_str = ''api/v1/namespaces/ns/pods/a api/v1/namespaces/ns/pods/b'',
            content = ''kind: Pod''\<rparr>"

definition d_abs :: ResourceData where
  "d_abs = \<lparr>Id_str = ''api/v1/namespaces/ns/pods/a api/v1/namespaces/ns/pods/b short'',
             content = ''kind: Pod''\<rparr>"

text \<open>The subprocesses of the handlers on these inputs.\<close>

definition apply_cmd :: Cmd where
  "apply_cmd = (kubectl cfg_plain [] [''apply'', ''-f'', ''-''])\<lparr>Stdin := Some ''kind: Pod''\<rparr>"

definition get_json_cmd :: Cmd where
  "get_json_cmd =
     (kubectl cfg_plain [] [''get'', ''-f'', ''-'', ''-o'', ''json''])\<lparr>Stdin := Some ''kind: Pod''\<rparr>"

definition get_cmd :: "string \<Rightarrow> Cmd" where
  "get_cmd resource = kubectl cfg_plain [] [''get'', ''--ignore-not-found'', resource, ''-n'', ''ns'']"

definition delete_cmd :: "string \<Rightarrow> Cmd" where
  "delete_cmd resource = kubectl cfg_plain [] [''delete'', resource, ''-n'', ''ns'']"

section \<open>Properties\<close>

subsection \<open>Split and Join\<close>

lemma Split_go_Nil: "Split_go sep cur [] = [cur]"
  by (subst Split_go.simps) simp

lemma Split_go_sep: "Split_go [c] cur (c # r) = cur # Split_go [c] [] r"
  by (subst Split_go.simps) simp

lemma Split_go_other: "x \<noteq> c \<Longrightarrow> Split_go [c] cur (x # r) = Split_go [c] (cur @ [x]) r"
  by (subst Split_go.simps) simp

lemma Split_go_nonempty: "Split_go sep cur s \<noteq> []"
  by (induction sep cur s rule: Split_go.induct) (subst Split_go.simps, simp)

lemma Split_nonempty: "Split s sep \<noteq> []"
  by (simp add: Split_def Split_go_nonempty)

text \<open>A piece without the separator byte is read into the current piece as a whole.\<close>

lemma Split_go_piece: "c \<notin> set x \<Longrightarrow> Split_go [c] cur (x @ r) = Split_go [c] (cur @ x) r"
proof (induction x arbitrary: cur)
  case Nil
  show ?case by simp
next
  case (Cons a x)
  then have "a \<noteq> c" and "c \<notin> set x" by auto
  then show ?case using Cons.IH [of "cur @ [a]"] by (simp add: Split_go_other)
qed

lemma Join_Cons: "S \<noteq> [] \<Longrightarrow> Join (a # S) sep = a @ sep @ Join S sep"
  by (cases S) simp_all

lemma Split_go_Join:
  "S \<noteq> [] \<Longrightarrow> \<forall>x\<in>set S. c \<notin> set x \<Longrightarrow>
   Split_go [c] cur (Join S [c]) = (cur @ hd S) # tl S"
proof (induction S arbitrary: cur rule: list_nonempty_induct)
  case (single a)
  then have "c \<notin> set a" by simp
  from Split_go_piece [OF this, of cur "[]"] show ?case by (simp add: Split_go_Nil)
next
  case (cons a S)
  then have a: "c \<notin> set a" and S: "\<forall>x\<in>set S. c \<notin> set x" by auto
  have "Split_go [c] cur (Join (a # S) [c]) = Split_go [c] (cur @ a) (c # Join S [c])"
    using Split_go_piece [OF a, of cur "c # Join S [c]"] cons.hyps by (simp add: Join_Cons)
  also have "\<dots> = (cur @ a) # Split_go [c] [] (Join S [c])" by (rule Split_go_sep)
  also have "\<dots> = (cur @ a) # S" using cons.IH [OF S, of "[]"] cons.hyps by simp
  finally show ?case by simp
qed

lemma Split_Join:
  "S \<noteq> [] \<Longrightarrow> \<forall>x\<in>set S. c \<notin> set x \<Longrightarrow> Split (Join S [c]) [c] = S"
  by (simp add: Split_def Split_go_Join)

subsection \<open>The namespace loop\<close>

lemma namespace_loop_found:
  assumes "i0 \<le> i" and "i + 1 < length parts" and "parts ! i = ''namespaces''"
    and "\<forall>k. i0 \<le> k \<and> k < i \<longrightarrow> parts ! k \<noteq> ''namespaces''"
  shows "namespace_loop parts i0 = parts ! (i + 1)"
  using assms
proof (induction parts i0 rule: namespace_loop.induct)
  case (1 parts i0)
  show ?case
  proof (cases "i0 = i")
    case True
    with "1.prems" show ?thesis by (subst namespace_loop.simps) simp
  next
    case False
    with "1.prems" have lt: "i0 < i" by simp
    with "1.prems" have ne: "parts ! i0 \<noteq> ''namespaces''" by simp
    from lt "1.prems" have len: "i0 < length parts" by simp
    have "namespace_loop parts (i0 + 1) = parts ! (i + 1)"
      using "1.IH" [OF len] ne lt "1.prems" by simp
    with ne len show ?thesis by (subst namespace_loop.simps) simp
  qed
qed

lemma namespace_loop_none:
  assumes "\<forall>k. i0 \<le> k \<and> k + 1 < length parts \<longrightarrow> parts ! k \<noteq> ''namespaces''"
  shows "namespace_loop parts i0 = []"
  using assms
proof (induction parts i0 rule: namespace_loop.induct)
  case (1 parts i0)
  show ?case
  proof (cases "i0 < length parts")
    case False
    then show ?thesis by (subst namespace_loop.simps) simp
  next
    case True
    have c: "\<not> (parts ! i0 = ''namespaces'' \<and> i0 + 1 < length parts)"
      using "1.prems" by auto
    have "namespace_loop parts (i0 + 1) = []"
      using "1.IH" [OF True] c "1.prems" by auto
    with True c show ?thesis by (subst namespace_loop.simps) auto
  qed
qed

lemma resourceFromSelflink_namespace:
  "fst (snd (resourceFromSelflink s)) =
     (if length (Split s ''/'') < 2 then [] else namespace_loop (Split s ''/'') 0)"
  by (simp add: resourceFromSelflink_def Let_def split: prod.splits)

lemma resourceFromSelflink_ok:
  "2 \<le> length (Split s ''/'') \<Longrightarrow>
   snd (snd (resourceFromSelflink s)) =
     (snd (PathUnescape (Split s ''/'' ! (length (Split s ''/'') - 2) @ ''/'' @
                         Split s ''/'' ! (length (Split s ''/'') - 1))) = None)"
  by (auto simp add: resourceFromSelflink_def Let_def split: prod.splits)

subsection \<open>Subprocesses\<close>

lemma subprocesses_append [simp]: "subprocesses (w @ v) = subprocesses w @ subprocesses v"
  by (simp add: subprocesses_def)

lemma subprocesses_cleanup [simp]: "subprocesses (cleanup f w) = subprocesses w"
  by (cases f) (simp_all add: cleanup_def subprocesses_def is_Exec_def)

lemma subprocesses_kubeconfigPath:
  "kubeconfigPath env m w = (r, w') \<Longrightarrow> subprocesses w' = subprocesses w"
  unfolding kubeconfigPath_def Let_def
  by (auto simp: subprocesses_def is_Exec_def cleanup_def
           split: if_splits sum.splits option.splits)

lemma subprocesses_run:
  "run env cmd w = (r, w') \<Longrightarrow> subprocesses w' = subprocesses w @ [Exec cmd]"
  unfolding run_def Let_def
  by (auto simp: subprocesses_def is_Exec_def split: if_splits option.splits)

subsection \<open>A configuration with both a path and inline content\<close>

lemma kubeconfigPath_conflict:
  "kubeconfig m \<noteq> [] \<Longrightarrow> kubeconfigContent m \<noteq> [] \<Longrightarrow>
   kubeconfigPath env m w = ((kubeconfig m, None, Some ConfigConflict), w)"
  by (simp add: kubeconfigPath_def)

lemma readResource_conflict:
  assumes "kubeconfig m \<noteq> []" and "kubeconfigContent m \<noteq> []"
  shows "readResource env m d w s = (Some (conflict_or_invalid s), d, w)"
  by (simp add: readResource_def conflict_or_invalid_def Let_def
        kubeconfigPath_conflict [OF assms] split: prod.splits)

lemma deleteResource_conflict:
  assumes "kubeconfig m \<noteq> []" and "kubeconfigContent m \<noteq> []"
  shows "deleteResource env m w s = (Some (conflict_or_invalid s), w)"
  by (simp add: deleteResource_def conflict_or_invalid_def Let_def
        kubeconfigPath_conflict [OF assms] split: prod.splits)

lemma read_loop_conflict:
  assumes "kubeconfig m \<noteq> []" and "kubeconfigContent m \<noteq> []"
  shows "read_loop env m ss (errs, d, w) = (errs @ map conflict_or_invalid ss, d, w)"
  by (induction ss arbitrary: errs) (simp_all add: readResource_conflict [OF assms])

lemma delete_loop_conflict:
  assumes "kubeconfig m \<noteq> []" and "kubeconfigContent m \<noteq> []"
  shows "n \<le> length rs \<Longrightarrow>
    delete_loop env m rs n (errs, w) = (errs @ map conflict_or_invalid (rev (take n rs)), w)"
proof (induction n arbitrary: errs)
  case 0
  show ?case by simp
next
  case (Suc n)
  then have "n < length rs" by simp
  then have "take (Suc n) rs = take n rs @ [rs ! n]" by (rule take_Suc_conv_app_nth)
  with Suc show ?case by (simp add: deleteResource_conflict [OF assms])
qed

subsection \<open>Create\<close>

lemma collect_selflinks_Some:
  "collect_selflinks items acc = Some r \<longleftrightarrow> [] \<notin> set items \<and> r = acc @ items"
  by (induction items arbitrary: acc) auto

lemma collect_selflinks_None:
  "collect_selflinks items acc = None \<longleftrightarrow> [] \<in> set items"
  by (induction items arbitrary: acc) auto

lemma Create_failure_keeps:
  "fst (resourceManifestCreate env m d w) \<noteq> None \<Longrightarrow>
   fst (snd (resourceManifestCreate env m d w)) = d"
  unfolding resourceManifestCreate_def
  by (auto split: prod.splits option.splits sum.splits if_splits)

lemma Create_success:
  assumes "fst (resourceManifestCreate env m d w) = None"
  shows "\<exists>path cl w0 out1 w1 out w2 items.
           kubeconfigPath env m w = ((path, cl, None), w0)
         \<and> run env ((kubectl m path [''apply'', ''-f'', ''-''])\<lparr>Stdin := Some (content d)\<rparr>) w0
             = ((None, out1), w1)
         \<and> run env ((kubectl m path [''get'', ''-f'', ''-'', ''-o'', ''json''])
                       \<lparr>Stdin := Some (content d)\<rparr>) w1 = ((None, out), w2)
         \<and> json_items env out = Inr items \<and> items \<noteq> [] \<and> [] \<notin> set items
         \<and> resourceManifestCreate env m d w
             = (None, d\<lparr>Id_str := Join items resourceIDSelflinkDelim\<rparr>, cleanup cl w2)"
  using assms unfolding resourceManifestCreate_def
  by (auto split: prod.splits option.splits sum.splits if_splits
           simp: collect_selflinks_Some collect_selflinks_None)

lemma Create_no_items:
  assumes "kubeconfigPath env m w = ((path, cl, None), w0)"
    and "run env ((kubectl m path [''apply'', ''-f'', ''-''])\<lparr>Stdin := Some (content d)\<rparr>) w0
           = ((None, out1), w1)"
    and "run env ((kubectl m path [''get'', ''-f'', ''-'', ''-o'', ''json''])
                       \<lparr>Stdin := Some (content d)\<rparr>) w1 = ((None, out), w2)"
    and "json_items env out = Inr []"
  shows "resourceManifestCreate env m d w = (Some NoResourcesCreated, d, cleanup cl w2)"
  using assms by (simp add: resourceManifestCreate_def)

subsection \<open>Update\<close>

lemma Update_unfold:
  "resourceManifestUpdate env m d w =
     (case kubeconfigPath env m w of
        ((path, cleanupFunc, Some err), w0) \<Rightarrow> (Some (DeterminingKubeconfig err), d, w0)
      | ((path, cleanupFunc, None), w0) \<Rightarrow>
          (fst (fst (run env ((kubectl m path [''apply'', ''-f'', ''-''])
                                \<lparr>Stdin := Some (content d)\<rparr>) w0)),
           d,
           cleanup cleanupFunc
             (snd (run env ((kubectl m path [''apply'', ''-f'', ''-''])
                              \<lparr>Stdin := Some (content d)\<rparr>) w0))))"
  by (simp add: resourceManifestUpdate_def split: prod.splits option.splits)

subsection \<open>The loops of Delete and Read\<close>

lemma state_after_Cons: "state_after x ((s, r, y) # as) = state_after y as"
  by (simp add: state_after_def)

lemma delete_attempts_locators: "map fst (delete_attempts env m w ss) = ss"
  by (induction ss arbitrary: w) (auto split: prod.splits)

text \<open>The counting loop of Delete makes the attempts over the reversed list.\<close>

lemma delete_loop_attempts:
  "n \<le> length rs \<Longrightarrow>
   delete_loop env m rs n (errs, w) =
     (errs @ errors_of (delete_attempts env m w (rev (take n rs))),
      state_after w (delete_attempts env m w (rev (take n rs))))"
proof (induction n arbitrary: errs w)
  case 0
  show ?case by (simp add: state_after_def)
next
  case (Suc n)
  then have n: "n < length rs" and n': "n \<le> length rs" by simp_all
  have t: "rev (take (Suc n) rs) = rs ! n # rev (take n rs)"
    by (simp add: take_Suc_conv_app_nth [OF n])
  obtain r w' where d: "deleteResource env m w (rs ! n) = (r, w')" by (metis prod.exhaust)
  show ?case
  proof (cases r)
    case None
    with d t Suc.IH [OF n', of errs w'] show ?thesis by (simp add: state_after_Cons)
  next
    case (Some e)
    with d t Suc.IH [OF n', of "errs @ [e]" w'] show ?thesis by (simp add: state_after_Cons)
  qed
qed

lemma Delete_attempts:
  "resourceManifestDelete env m d w =
     (aggregate (errors_of (delete_attempts env m w
                              (rev (Split (Id_str d) resourceIDSelflinkDelim)))),
      d,
      state_after w (delete_attempts env m w (rev (Split (Id_str d) resourceIDSelflinkDelim))))"
  by (simp add: resourceManifestDelete_def Let_def delete_loop_attempts aggregate_def)

lemma Delete_two:
  assumes "CHR '' '' \<notin> set a" and "CHR '' '' \<notin> set b"
    and "Id_str d = Join [a, b] resourceIDSelflinkDelim"
    and "deleteResource env m w b = (Some e, w1)"
    and "deleteResource env m w1 a = (None, w2)"
  shows "resourceManifestDelete env m d w = (Some (errorList [e]), d, w2)"
proof -
  have "Split (Join [a, b] [CHR '' '']) [CHR '' ''] = [a, b]"
    using assms(1,2) by (intro Split_Join) auto
  with assms(3) have "Split (Id_str d) resourceIDSelflinkDelim = [a, b]"
    by (simp add: resourceIDSelflinkDelim_def)
  with assms(4,5) show ?thesis
    by (simp add: Delete_attempts aggregate_def state_after_def)
qed

lemma read_attempts_locators: "map fst (read_attempts env m d w ss) = ss"
  by (induction ss arbitrary: d w) (auto split: prod.splits)

lemma read_loop_attempts:
  "read_loop env m ss (errs, d, w) =
     (errs @ errors_of (read_attempts env m d w ss),
      state_after (d, w) (read_attempts env m d w ss))"
proof (induction ss arbitrary: errs d w)
  case Nil
  show ?case by (simp add: state_after_def)
next
  case (Cons s ss)
  obtain r d' w' where rd: "readResource env m d w s = (r, d', w')" by (metis prod_cases3)
  show ?case
  proof (cases r)
    case None
    with rd Cons.IH [of errs d' w'] show ?thesis by (simp add: state_after_Cons)
  next
    case (Some e)
    with rd Cons.IH [of "errs @ [e]" d' w'] show ?thesis by (simp add: state_after_Cons)
  qed
qed

lemma Read_attempts:
  "resourceManifestRead env m d w =
     (aggregate (errors_of (read_attempts env m d w
                              (Split (Id_str d) resourceIDSelflinkDelim))),
      state_after (d, w) (read_attempts env m d w (Split (Id_str d) resourceIDSelflinkDelim)))"
  by (simp add: resourceManifestRead_def read_loop_attempts aggregate_def split: prod.splits)

text \<open>\<open>readResource\<close> leaves the identity alone or clears it; once cleared, it stays so.\<close>

lemma readResource_Id:
  "readResource env m d w s = (r, d', w') \<Longrightarrow> d' = d \<or> d' = d\<lparr>Id_str := []\<rparr>"
  unfolding readResource_def Let_def
  by (auto split: prod.splits option.splits if_splits)

lemma read_loop_stays_cleared:
  "Id_str d = [] \<Longrightarrow> read_loop env m ss (errs, d, w) = (errs', d', w') \<Longrightarrow> Id_str d' = []"
proof (induction ss arbitrary: errs d w)
  case Nil
  then show ?case by simp
next
  case (Cons s ss)
  obtain r d1 w1 where rd: "readResource env m d w s = (r, d1, w1)" by (metis prod_cases3)
  from readResource_Id [OF rd] Cons.prems(1) have c: "Id_str d1 = []" by auto
  show ?case
  proof (cases r)
    case None
    with rd Cons.prems(2) have "read_loop env m ss (errs, d1, w1) = (errs', d', w')" by simp
    from Cons.IH [OF c this] show ?thesis .
  next
    case (Some e)
    with rd Cons.prems(2) have "read_loop env m ss (errs @ [e], d1, w1) = (errs', d', w')"
      by simp
    from Cons.IH [OF c this] show ?thesis .
  qed
qed

lemma read_loop_append:
  "read_loop env m (pre @ post) st = read_loop env m post (read_loop env m pre st)"
proof (induction pre arbitrary: st)
  case Nil
  show ?case by simp
next
  case (Cons s pre)
  obtain errs d w where st: "st = (errs, d, w)" by (metis prod_cases3)
  show ?case unfolding st by (simp add: Cons.IH split: prod.splits option.splits)
qed

lemma readResource_blank:
  assumes "resourceFromSelflink selflink = (resource, namespace, True)"
    and "kubeconfigPath env m w = ((path, cleanupFunc, None), w0)"
    and "run env (kubectl m path ([''get'', ''--ignore-not-found'', resource]
                    @ (if namespace \<noteq> [] then [''-n'', namespace] else []))) w0
           = ((None, stdout), w1)"
    and "TrimSpace stdout = []"
  shows "readResource env m d w selflink = (None, d\<lparr>Id_str := []\<rparr>, cleanup cleanupFunc w1)"
  using assms by (auto simp add: readResource_def Let_def)

lemma Read_clears:
  assumes split: "Split (Id_str d) resourceIDSelflinkDelim = pre @ selflink # post"
    and before: "read_loop env m pre ([], d, w) = (errs1, d1, w1)"
    and valid: "resourceFromSelflink selflink = (resource, namespace, True)"
    and creds: "kubeconfigPath env m w1 = ((path, cleanupFunc, None), w2)"
    and query: "run env (kubectl m path ([''get'', ''--ignore-not-found'', resource]
                    @ (if namespace \<noteq> [] then [''-n'', namespace] else []))) w2
           = ((None, stdout), w3)"
    and blank: "TrimSpace stdout = []"
  shows "Id_str (fst (snd (resourceManifestRead env m d w))) = []"
proof -
  have r: "readResource env m d1 w1 selflink
             = (None, d1\<lparr>Id_str := []\<rparr>, cleanup cleanupFunc w3)"
    by (rule readResource_blank [OF valid creds query blank])
  obtain errs' d' w' where
    l: "read_loop env m post (errs1, d1\<lparr>Id_str := []\<rparr>, cleanup cleanupFunc w3) = (errs', d', w')"
    by (metis prod_cases3)
  have "Id_str (d1\<lparr>Id_str := []\<rparr>) = []" by simp
  from read_loop_stays_cleared [OF this l] have c: "Id_str d' = []" .
  have "read_loop env m (pre @ selflink # post) ([], d, w) = (errs', d', w')"
    using before r l by (simp add: read_loop_append)
  with split c show ?thesis by (simp add: resourceManifestRead_def)
qed

section \<open>The claims\<close>

text \<open>
  C1 (as amended).  For every non-empty sequence \<open>S\<close> of self-links none of which
  contains the delimiter (a space), splitting the join of \<open>S\<close> on the delimiter gives
  back exactly \<open>S\<close>, so decoding the pieces gives the same results as decoding each
  element of \<open>S\<close>.
\<close>

theorem C1_join_split_roundtrip:
  assumes "S \<noteq> []" and "\<forall>s\<in>set S. CHR '' '' \<notin> set s"
  shows "Split (Join S resourceIDSelflinkDelim) resourceIDSelflinkDelim = S
       \<and> map resourceFromSelflink (Split (Join S resourceIDSelflinkDelim) resourceIDSelflinkDelim)
           = map resourceFromSelflink S"
  using Split_Join [OF assms] by (simp add: resourceIDSelflinkDelim_def)

theorem C1_join_split_roundtrip_witness:
  "[''api/v1/namespaces/ns/pods/a'', ''api/v1/namespaces/ns/pods/b''] \<noteq> []
   \<and> CHR '' '' \<notin> set ''api/v1/namespaces/ns/pods/a''
   \<and> CHR '' '' \<notin> set ''api/v1/namespaces/ns/pods/b''
   \<and> Split ''api/v1/namespaces/ns/pods/a api/v1/namespaces/ns/pods/b'' resourceIDSelflinkDelim
       = [''api/v1/namespaces/ns/pods/a'', ''api/v1/namespaces/ns/pods/b'']"
proof -
  let ?S = "[''api/v1/namespaces/ns/pods/a'', ''api/v1/namespaces/ns/pods/b'']"
  have h1: "?S \<noteq> []" by simp
  have h2: "\<forall>s\<in>set ?S. CHR '' '' \<notin> set s" by simp
  from C1_join_split_roundtrip [OF h1 h2]
  have "Split (Join ?S resourceIDSelflinkDelim) resourceIDSelflinkDelim = ?S"
    by (rule conjunct1)
  then show ?thesis by (simp add: resourceIDSelflinkDelim_def)
qed

text \<open>
  The claim as stated, for every sequence of strings, fails for a self-link that contains
  a space: the one-element sequence \<open>["x/y z/w"]\<close> comes back as two pieces, which decode
  to two locators instead of one.
\<close>

theorem C1_counterexample:
  "Split (Join [''x/y z/w''] resourceIDSelflinkDelim) resourceIDSelflinkDelim = [''x/y'', ''z/w'']
   \<and> Split (Join [''x/y z/w''] resourceIDSelflinkDelim) resourceIDSelflinkDelim \<noteq> [''x/y z/w'']
   \<and> map resourceFromSelflink
        (Split (Join [''x/y z/w''] resourceIDSelflinkDelim) resourceIDSelflinkDelim)
       = [(''x/y'', [], True), (''z/w'', [], True)]
   \<and> map resourceFromSelflink [''x/y z/w''] = [(''y z/w'', [], True)]"
  by code_simp

text \<open>
  C2.  Read makes one attempt for each locator of the stored identity, in order, and
  returns the aggregate of the errors of the attempts that failed (nothing when none
  failed), only after the last attempt.  If the get query of any one locator (the
  locator decodes, the credentials resolve and the subprocess succeeds) prints nothing
  but white space, the identity is empty after Read, whatever the attempts before and
  after it did.
\<close>

theorem C2_read_clears_identity:
  assumes "Split (Id_str d) resourceIDSelflinkDelim = pre @ selflink # post"
    and "read_loop env m pre ([], d, w) = (errs1, d1, w1)"
    and "resourceFromSelflink selflink = (resource, namespace, True)"
    and "kubeconfigPath env m w1 = ((path, cleanupFunc, None), w2)"
    and "run env (kubectl m path ([''get'', ''--ignore-not-found'', resource]
                    @ (if namespace \<noteq> [] then [''-n'', namespace] else []))) w2
           = ((None, stdout), w3)"
    and "TrimSpace stdout = []"
  shows "Id_str (fst (snd (resourceManifestRead env m d w))) = []
       \<and> map fst (read_attempts env m d w (Split (Id_str d) resourceIDSelflinkDelim))
           = Split (Id_str d) resourceIDSelflinkDelim
       \<and> resourceManifestRead env m d w
           = (aggregate (errors_of (read_attempts env m d w
                                      (Split (Id_str d) resourceIDSelflinkDelim))),
              state_after (d, w) (read_attempts env m d w
                                    (Split (Id_str d) resourceIDSelflinkDelim)))"
proof (intro conjI)
  show "Id_str (fst (snd (resourceManifestRead env m d w))) = []"
    by (rule Read_clears [OF assms])
  show "map fst (read_attempts env m d w (Split (Id_str d) resourceIDSelflinkDelim))
           = Split (Id_str d) resourceIDSelflinkDelim"
    by (rule read_attempts_locators)
  show "resourceManifestRead env m d w
           = (aggregate (errors_of (read_attempts env m d w
                                      (Split (Id_str d) resourceIDSelflinkDelim))),
              state_after (d, w) (read_attempts env m d w
                                    (Split (Id_str d) resourceIDSelflinkDelim)))"
    by (rule Read_attempts)
qed

text \<open>
  The witness: of the three locators of \<open>d_abs\<close> the first query prints a line, the
  second prints white space and the third locator does not decode.  Read returns the
  error of the third and the identity is cleared.
\<close>

theorem C2_read_clears_identity_witness:
  "Split (Id_str d_abs) resourceIDSelflinkDelim
     = [''api/v1/namespaces/ns/pods/a''] @ ''api/v1/namespaces/ns/pods/b'' # [''short'']
   \<and> resourceFromSelflink ''api/v1/namespaces/ns/pods/b'' = (''pods/b'', ''ns'', True)
   \<and> run env_b_blank (get_cmd ''pods/b'') [Exec (get_cmd ''pods/a'')]
       = ((None, [CHR 0x20, CHR 0x0A]), [Exec (get_cmd ''pods/a''), Exec (get_cmd ''pods/b'')])
   \<and> TrimSpace [CHR 0x20, CHR 0x0A] = []
   \<and> Id_str (fst (snd (resourceManifestRead env_b_blank cfg_plain d_abs []))) = []
   \<and> fst (resourceManifestRead env_b_blank cfg_plain d_abs [])
       = Some (errorList [InvalidResourceID ''short''])"
proof -
  have h1: "Split (Id_str d_abs) resourceIDSelflinkDelim
     = [''api/v1/namespaces/ns/pods/a''] @ ''api/v1/namespaces/ns/pods/b'' # [''short'']"
    by code_simp
  have h2: "read_loop env_b_blank cfg_plain [''api/v1/namespaces/ns/pods/a''] ([], d_abs, [])
     = ([], d_abs, [Exec (get_cmd ''pods/a'')])"
    by code_simp
  have h3: "resourceFromSelflink ''api/v1/namespaces/ns/pods/b'' = (''pods/b'', ''ns'', True)"
    by code_simp
  have h4: "kubeconfigPath env_b_blank cfg_plain [Exec (get_cmd ''pods/a'')]
     = (([], None, None), [Exec (get_cmd ''pods/a'')])"
    by code_simp
  have h5: "run env_b_blank (kubectl cfg_plain [] ([''get'', ''--ignore-not-found'', ''pods/b'']
                    @ (if ''ns'' \<noteq> [] then [''-n'', ''ns''] else [])))
              [Exec (get_cmd ''pods/a'')]
     = ((None, [CHR 0x20, CHR 0x0A]), [Exec (get_cmd ''pods/a''), Exec (get_cmd ''pods/b'')])"
    by code_simp
  have h6: "TrimSpace [CHR 0x20, CHR 0x0A] = []" by code_simp
  have e: "errors_of (read_attempts env_b_blank cfg_plain d_abs []
                        (Split (Id_str d_abs) resourceIDSelflinkDelim))
             = [InvalidResourceID ''short'']"
    by code_simp
  have g: "get_cmd ''pods/b'' = kubectl cfg_plain [] ([''get'', ''--ignore-not-found'', ''pods/b'']
                    @ (if ''ns'' \<noteq> [] then [''-n'', ''ns''] else []))"
    by (simp add: get_cmd_def)
  note T = C2_read_clears_identity [OF h1 h2 h3 h4 h5 h6]
  from T have c: "Id_str (fst (snd (resourceManifestRead env_b_blank cfg_plain d_abs []))) = []"
    by (rule conjunct1)
  from T have "fst (resourceManifestRead env_b_blank cfg_plain d_abs [])
      = aggregate (errors_of (read_attempts env_b_blank cfg_plain d_abs []
                                (Split (Id_str d_abs) resourceIDSelflinkDelim)))"
    by (simp only: fst_conv)
  then have r: "fst (resourceManifestRead env_b_blank cfg_plain d_abs [])
      = Some (errorList [InvalidResourceID ''short''])"
    by (simp only: e aggregate_def list.simps if_False)
  from h5 have q: "run env_b_blank (get_cmd ''pods/b'') [Exec (get_cmd ''pods/a'')]
       = ((None, [CHR 0x20, CHR 0x0A]), [Exec (get_cmd ''pods/a''), Exec (get_cmd ''pods/b'')])"
    by (simp only: g [symmetric])
  from h1 h3 q h6 c r show ?thesis by (intro conjI)
qed

text \<open>
  C3.  Delete makes one attempt for each locator of the stored identity, in the reverse
  of their order in the identity, whether or not earlier attempts failed, and returns
  the aggregate of exactly the errors of the attempts that failed.  For the identity
  \<open>a b\<close>: \<open>b\<close> is deleted first, \<open>a\<close> next (in the world that the attempt on \<open>b\<close> left),
  and when only the deletion of \<open>b\<close> fails the aggregate holds exactly that error.
\<close>

theorem C3_delete_reverse_best_effort:
  "map fst (delete_attempts env m w (rev (Split (Id_str d) resourceIDSelflinkDelim)))
     = rev (Split (Id_str d) resourceIDSelflinkDelim)
   \<and> resourceManifestDelete env m d w
       = (aggregate (errors_of (delete_attempts env m w
                                  (rev (Split (Id_str d) resourceIDSelflinkDelim)))),
          d,
          state_after w (delete_attempts env m w
                           (rev (Split (Id_str d) resourceIDSelflinkDelim))))
   \<and> (CHR '' '' \<notin> set a \<and> CHR '' '' \<notin> set b
        \<and> Id_str d = Join [a, b] resourceIDSelflinkDelim
        \<and> deleteResource env m w b = (Some e, w1)
        \<and> deleteResource env m w1 a = (None, w2)
      \<longrightarrow> resourceManifestDelete env m d w = (Some (errorList [e]), d, w2))"
proof (intro conjI impI)
  show "map fst (delete_attempts env m w (rev (Split (Id_str d) resourceIDSelflinkDelim)))
     = rev (Split (Id_str d) resourceIDSelflinkDelim)"
    by (rule delete_attempts_locators)
  show "resourceManifestDelete env m d w
       = (aggregate (errors_of (delete_attempts env m w
                                  (rev (Split (Id_str d) resourceIDSelflinkDelim)))),
          d,
          state_after w (delete_attempts env m w
                           (rev (Split (Id_str d) resourceIDSelflinkDelim))))"
    by (rule Delete_attempts)
next
  assume "CHR '' '' \<notin> set a \<and> CHR '' '' \<notin> set b
        \<and> Id_str d = Join [a, b] resourceIDSelflinkDelim
        \<and> deleteResource env m w b = (Some e, w1)
        \<and> deleteResource env m w1 a = (None, w2)"
  then have a1: "CHR '' '' \<notin> set a" and a2: "CHR '' '' \<notin> set b"
    and a3: "Id_str d = Join [a, b] resourceIDSelflinkDelim"
    and a4: "deleteResource env m w b = (Some e, w1)"
    and a5: "deleteResource env m w1 a = (None, w2)"
    by blast+
  show "resourceManifestDelete env m d w = (Some (errorList [e]), d, w2)"
    by (rule Delete_two [OF a1 a2 a3 a4 a5])
qed

theorem C3_delete_reverse_best_effort_witness:
  "CHR '' '' \<notin> set ''api/v1/namespaces/ns/pods/a''
   \<and> CHR '' '' \<notin> set ''api/v1/namespaces/ns/pods/b''
   \<and> Id_str d_ab
       = Join [''api/v1/namespaces/ns/pods/a'', ''api/v1/namespaces/ns/pods/b'']
           resourceIDSelflinkDelim
   \<and> deleteResource env_b_fails cfg_plain [] ''api/v1/namespaces/ns/pods/b''
       = (Some (CommandFailedStderr ''kubectl kubectl delete pods/b -n ns'' ''exit status 1''
                  ''boom''),
          [Exec (delete_cmd ''pods/b'')])
   \<and> deleteResource env_b_fails cfg_plain [Exec (delete_cmd ''pods/b'')]
         ''api/v1/namespaces/ns/pods/a''
       = (None, [Exec (delete_cmd ''pods/b''), Exec (delete_cmd ''pods/a'')])
   \<and> resourceManifestDelete env_b_fails cfg_plain d_ab []
       = (Some (errorList [CommandFailedStderr ''kubectl kubectl delete pods/b -n ns''
                             ''exit status 1'' ''boom'']),
          d_ab,
          [Exec (delete_cmd ''pods/b''), Exec (delete_cmd ''pods/a'')])"
proof -
  have h1: "CHR '' '' \<notin> set ''api/v1/namespaces/ns/pods/a''" by simp
  have h2: "CHR '' '' \<notin> set ''api/v1/namespaces/ns/pods/b''" by simp
  have h3: "Id_str d_ab
       = Join [''api/v1/namespaces/ns/pods/a'', ''api/v1/namespaces/ns/pods/b'']
           resourceIDSelflinkDelim"
    by code_simp
  have h4: "deleteResource env_b_fails cfg_plain [] ''api/v1/namespaces/ns/pods/b''
       = (Some (CommandFailedStderr ''kubectl kubectl delete pods/b -n ns'' ''exit status 1''
                  ''boom''),
          [Exec (delete_cmd ''pods/b'')])"
    by code_simp
  have h5: "deleteResource env_b_fails cfg_plain [Exec (delete_cmd ''pods/b'')]
         ''api/v1/namespaces/ns/pods/a''
       = (None, [Exec (delete_cmd ''pods/b''), Exec (delete_cmd ''pods/a'')])"
    by code_simp
  from C3_delete_reverse_best_effort
         [of env_b_fails cfg_plain "[]" d_ab "''api/v1/namespaces/ns/pods/a''"
             "''api/v1/namespaces/ns/pods/b''"
             "CommandFailedStderr ''kubectl kubectl delete pods/b -n ns'' ''exit status 1'' ''boom''"
             "[Exec (delete_cmd ''pods/b'')]"
             "[Exec (delete_cmd ''pods/b''), Exec (delete_cmd ''pods/a'')]"]
  have "CHR '' '' \<notin> set ''api/v1/namespaces/ns/pods/a''
        \<and> CHR '' '' \<notin> set ''api/v1/namespaces/ns/pods/b''
        \<and> Id_str d_ab
            = Join [''api/v1/namespaces/ns/pods/a'', ''api/v1/namespaces/ns/pods/b'']
                resourceIDSelflinkDelim
        \<and> deleteResource env_b_fails cfg_plain [] ''api/v1/namespaces/ns/pods/b''
            = (Some (CommandFailedStderr ''kubectl kubectl delete pods/b -n ns''
                       ''exit status 1'' ''boom''),
               [Exec (delete_cmd ''pods/b'')])
        \<and> deleteResource env_b_fails cfg_plain [Exec (delete_cmd ''pods/b'')]
              ''api/v1/namespaces/ns/pods/a''
            = (None, [Exec (delete_cmd ''pods/b''), Exec (delete_cmd ''pods/a'')])
      \<longrightarrow> resourceManifestDelete env_b_fails cfg_plain d_ab []
            = (Some (errorList [CommandFailedStderr ''kubectl kubectl delete pods/b -n ns''
                                  ''exit status 1'' ''boom'']),
               d_ab,
               [Exec (delete_cmd ''pods/b''), Exec (delete_cmd ''pods/a'')])"
    by (elim conjE)
  with h1 h2 h3 h4 h5 show ?thesis by blast
qed

text \<open>
  C4 (as amended).  For every self-link with at least two segments whose
  resourceKindAndName (the last two segments joined by \<open>/\<close>) fails percent-decoding,
  \<open>resourceFromSelflink\<close> returns \<open>ok = false\<close>, the namespace that the loop found, and
  as resource the empty string that \<open>url.PathUnescape\<close> returns with its error, not the
  undecoded value.
\<close>

theorem C4_decode_failure:
  assumes "parts = Split s ''/''" and "2 \<le> length parts"
    and "snd (PathUnescape (parts ! (length parts - 2) @ ''/'' @ parts ! (length parts - 1)))
           \<noteq> None"
  shows "resourceFromSelflink s = ([], namespace_loop parts 0, False)"
  using assms
  by (auto simp: resourceFromSelflink_def Let_def PathUnescape_def
           split: sum.splits prod.splits)

theorem C4_decode_failure_witness:
  "2 \<le> length (Split ''api/v1/namespaces/ns/pods/b%zz'' ''/'')
   \<and> snd (PathUnescape ''pods/b%zz'') \<noteq> None
   \<and> resourceFromSelflink ''api/v1/namespaces/ns/pods/b%zz'' = ([], ''ns'', False)"
proof -
  let ?parts = "[''api'', ''v1'', ''namespaces'', ''ns'', ''pods'', ''b%zz'']"
  have h1: "?parts = Split ''api/v1/namespaces/ns/pods/b%zz'' ''/''" by code_simp
  have h2: "2 \<le> length ?parts" by simp
  have u: "snd (PathUnescape ''pods/b%zz'') \<noteq> None" by code_simp
  have h3: "snd (PathUnescape (?parts ! (length ?parts - 2) @ ''/''
                                 @ ?parts ! (length ?parts - 1))) \<noteq> None"
    using u by simp
  have n: "namespace_loop ?parts 0 = ''ns''" by code_simp
  from C4_decode_failure [OF h1 h2 h3]
  have "resourceFromSelflink ''api/v1/namespaces/ns/pods/b%zz'' = ([], ''ns'', False)"
    by (simp only: n)
  moreover from h2 have "2 \<le> length (Split ''api/v1/namespaces/ns/pods/b%zz'' ''/'')"
    by (simp only: h1 [symmetric])
  ultimately show ?thesis using u by (intro conjI)
qed

text \<open>
  The claim as stated fails: for \<open>a/b%zz\<close> the decoding of \<open>a/b%zz\<close> fails and the
  resource returned is the empty string, which is neither the undecoded value nor a
  partly decoded one.
\<close>

theorem C4_counterexample:
  "snd (PathUnescape ''a/b%zz'') = Some ''%zz''
   \<and> resourceFromSelflink ''a/b%zz'' = ([], [], False)
   \<and> fst (resourceFromSelflink ''a/b%zz'') \<noteq> ''a/b%zz''"
  by code_simp

text \<open>
  C5 (as amended).  When the kubeconfig path passed to \<open>kubectl\<close> and the configured
  context are both non-empty, the arguments of the subprocess are \<open>--context <name>\<close>
  first, \<open>--kubeconfig <path>\<close> second, and then the verb and its arguments.
\<close>

theorem C5_kubectl_context_first:
  "path \<noteq> [] \<Longrightarrow> kubeconfigContext m \<noteq> [] \<Longrightarrow>
     Args (kubectl m path args)
       = ''kubectl'' # [''--context'', kubeconfigContext m, ''--kubeconfig'', path] @ args"
  by (simp add: kubectl_def Command_def)

theorem C5_kubectl_context_first_witness:
  "''/p'' \<noteq> [] \<and> kubeconfigContext cfg_path_context \<noteq> [] \<and>
     Args (kubectl cfg_path_context ''/p'' [''apply'', ''-f'', ''-''])
       = ''kubectl'' # [''--context'', kubeconfigContext cfg_path_context, ''--kubeconfig'', ''/p'']
           @ [''apply'', ''-f'', ''-'']"
proof -
  have h1: "''/p'' \<noteq> []" by simp
  have h2: "kubeconfigContext cfg_path_context \<noteq> []" by (simp add: cfg_path_context_def)
  from C5_kubectl_context_first [OF h1 h2, of "[''apply'', ''-f'', ''-'']"] h1 h2
  show ?thesis by (intro conjI)
qed

text \<open>
  The claim as stated fails: with the path \<open>/p\<close> and the context \<open>ctx\<close> the context pair
  comes before the kubeconfig pair.
\<close>

theorem C5_counterexample:
  "Args (kubectl cfg_path_context ''/p'' [''apply'', ''-f'', ''-''])
     = [''kubectl'', ''--context'', ''ctx'', ''--kubeconfig'', ''/p'', ''apply'', ''-f'', ''-'']
   \<and> Args (kubectl cfg_path_context ''/p'' [''apply'', ''-f'', ''-''])
     \<noteq> [''kubectl'', ''--kubeconfig'', ''/p'', ''--context'', ''ctx'', ''apply'', ''-f'', ''-'']"
  by (simp add: kubectl_def cfg_path_context_def Command_def)

text \<open>
  C6 (as amended).  When both the kubeconfig path and the inline kubeconfig content are
  non-empty, credential resolution fails with the configuration-conflict error and
  changes nothing outside.  Create and Update return that error (wrapped as
  "determining kubeconfig") and Read and Delete return an aggregate with one error for
  each locator of the stored identity (Delete in reverse order): the wrapped conflict
  error for a locator that decodes, the invalid-id error for one that does not.  None of
  the four runs a subprocess or changes the resource data: the world is left as it was.
\<close>

theorem C6_conflict_no_subprocess:
  assumes "kubeconfig m \<noteq> []" and "kubeconfigContent m \<noteq> []"
  shows "kubeconfigPath env m w = ((kubeconfig m, None, Some ConfigConflict), w)
    \<and> resourceManifestCreate env m d w = (Some (DeterminingKubeconfig ConfigConflict), d, w)
    \<and> resourceManifestUpdate env m d w = (Some (DeterminingKubeconfig ConfigConflict), d, w)
    \<and> resourceManifestRead env m d w
        = (Some (errorList (map conflict_or_invalid (Split (Id_str d) resourceIDSelflinkDelim))),
           d, w)
    \<and> resourceManifestDelete env m d w
        = (Some (errorList
                  (map conflict_or_invalid (rev (Split (Id_str d) resourceIDSelflinkDelim)))),
           d, w)"
proof (intro conjI)
  show "kubeconfigPath env m w = ((kubeconfig m, None, Some ConfigConflict), w)"
    by (rule kubeconfigPath_conflict [OF assms])
  show "resourceManifestCreate env m d w = (Some (DeterminingKubeconfig ConfigConflict), d, w)"
    by (simp add: resourceManifestCreate_def kubeconfigPath_conflict [OF assms])
  show "resourceManifestUpdate env m d w = (Some (DeterminingKubeconfig ConfigConflict), d, w)"
    by (simp add: resourceManifestUpdate_def kubeconfigPath_conflict [OF assms])
  show "resourceManifestRead env m d w
        = (Some (errorList (map conflict_or_invalid (Split (Id_str d) resourceIDSelflinkDelim))),
           d, w)"
    by (simp add: resourceManifestRead_def read_loop_conflict [OF assms] Split_nonempty)
  show "resourceManifestDelete env m d w
        = (Some (errorList
                  (map conflict_or_invalid (rev (Split (Id_str d) resourceIDSelflinkDelim)))),
           d, w)"
    by (simp add: resourceManifestDelete_def Let_def delete_loop_conflict [OF assms]
          Split_nonempty)
qed

theorem C6_conflict_no_subprocess_witness:
  "kubeconfig cfg_conflict \<noteq> [] \<and> kubeconfigContent cfg_conflict \<noteq> []
   \<and> resourceManifestCreate env_quiet cfg_conflict d_new []
       = (Some (DeterminingKubeconfig ConfigConflict), d_new, [])
   \<and> resourceManifestRead env_quiet cfg_conflict d_ab []
       = (Some (errorList [DeterminingKubeconfig ConfigConflict,
                           DeterminingKubeconfig ConfigConflict]), d_ab, [])"
proof -
  have h1: "kubeconfig cfg_conflict \<noteq> []" by (simp add: cfg_conflict_def)
  have h2: "kubeconfigContent cfg_conflict \<noteq> []" by (simp add: cfg_conflict_def)
  have s: "map conflict_or_invalid (Split (Id_str d_ab) resourceIDSelflinkDelim)
             = [DeterminingKubeconfig ConfigConflict, DeterminingKubeconfig ConfigConflict]"
    by code_simp
  from C6_conflict_no_subprocess [OF h1 h2, of env_quiet "[]" d_new]
  have c: "resourceManifestCreate env_quiet cfg_conflict d_new []
       = (Some (DeterminingKubeconfig ConfigConflict), d_new, [])"
    by blast
  from C6_conflict_no_subprocess [OF h1 h2, of env_quiet "[]" d_ab]
  have "resourceManifestRead env_quiet cfg_conflict d_ab []
        = (Some (errorList (map conflict_or_invalid
                              (Split (Id_str d_ab) resourceIDSelflinkDelim))), d_ab, [])"
    by blast
  then have r: "resourceManifestRead env_quiet cfg_conflict d_ab []
       = (Some (errorList [DeterminingKubeconfig ConfigConflict,
                           DeterminingKubeconfig ConfigConflict]), d_ab, [])"
    by (simp only: s)
  from h1 h2 c r show ?thesis by (intro conjI)
qed

text \<open>
  The claim as stated fails for Read (and Delete) when a locator of the stored
  identity does not decode: for the identity \<open>short\<close> the credentials are never resolved
  and the error returned is the invalid-id error alone, with no conflict error in it.
\<close>

theorem C6_counterexample:
  "kubeconfig cfg_conflict \<noteq> [] \<and> kubeconfigContent cfg_conflict \<noteq> []
   \<and> resourceManifestRead env_quiet cfg_conflict d_short []
       = (Some (errorList [InvalidResourceID ''short'']), d_short, [])
   \<and> \<not> reports_conflict (errorList [InvalidResourceID ''short''])"
  by code_simp

text \<open>
  C7.  When credentials resolve, apply and the structured get succeed and the decoded
  item list is empty, Create returns the no-resources-created error and leaves the
  resource data as it was.  Whenever Create returns an error the resource data, and so
  the identity, is unchanged.  Create returns no error only if every step succeeded (the
  credentials, apply, get, decoding, a non-empty item list with no empty self-link), and
  only then is the identity set, to the join of the self-links.
\<close>

theorem C7_create_failure_sets_no_identity:
  "(kubeconfigPath env m w = ((path, cl, None), w0)
      \<and> run env ((kubectl m path [''apply'', ''-f'', ''-''])\<lparr>Stdin := Some (content d)\<rparr>) w0
            = ((None, out1), w1)
      \<and> run env ((kubectl m path [''get'', ''-f'', ''-'', ''-o'', ''json''])
                    \<lparr>Stdin := Some (content d)\<rparr>) w1 = ((None, out), w2)
      \<and> json_items env out = Inr []
    \<longrightarrow> resourceManifestCreate env m d w = (Some NoResourcesCreated, d, cleanup cl w2))
   \<and> (fst (resourceManifestCreate env m d w) \<noteq> None
    \<longrightarrow> fst (snd (resourceManifestCreate env m d w)) = d)
   \<and> (fst (resourceManifestCreate env m d w) = None
    \<longrightarrow> (\<exists>path cl w0 out1 w1 out w2 items.
           kubeconfigPath env m w = ((path, cl, None), w0)
         \<and> run env ((kubectl m path [''apply'', ''-f'', ''-''])\<lparr>Stdin := Some (content d)\<rparr>) w0
             = ((None, out1), w1)
         \<and> run env ((kubectl m path [''get'', ''-f'', ''-'', ''-o'', ''json''])
                       \<lparr>Stdin := Some (content d)\<rparr>) w1 = ((None, out), w2)
         \<and> json_items env out = Inr items \<and> items \<noteq> [] \<and> [] \<notin> set items
         \<and> resourceManifestCreate env m d w
             = (None, d\<lparr>Id_str := Join items resourceIDSelflinkDelim\<rparr>, cleanup cl w2)))"
proof (intro conjI impI)
  assume "kubeconfigPath env m w = ((path, cl, None), w0)
      \<and> run env ((kubectl m path [''apply'', ''-f'', ''-''])\<lparr>Stdin := Some (content d)\<rparr>) w0
            = ((None, out1), w1)
      \<and> run env ((kubectl m path [''get'', ''-f'', ''-'', ''-o'', ''json''])
                    \<lparr>Stdin := Some (content d)\<rparr>) w1 = ((None, out), w2)
      \<and> json_items env out = Inr []"
  then show "resourceManifestCreate env m d w = (Some NoResourcesCreated, d, cleanup cl w2)"
    by (intro Create_no_items) auto
next
  assume "fst (resourceManifestCreate env m d w) \<noteq> None"
  then show "fst (snd (resourceManifestCreate env m d w)) = d" by (rule Create_failure_keeps)
next
  assume "fst (resourceManifestCreate env m d w) = None"
  then show "\<exists>path cl w0 out1 w1 out w2 items.
           kubeconfigPath env m w = ((path, cl, None), w0)
         \<and> run env ((kubectl m path [''apply'', ''-f'', ''-''])\<lparr>Stdin := Some (content d)\<rparr>) w0
             = ((None, out1), w1)
         \<and> run env ((kubectl m path [''get'', ''-f'', ''-'', ''-o'', ''json''])
                       \<lparr>Stdin := Some (content d)\<rparr>) w1 = ((None, out), w2)
         \<and> json_items env out = Inr items \<and> items \<noteq> [] \<and> [] \<notin> set items
         \<and> resourceManifestCreate env m d w
             = (None, d\<lparr>Id_str := Join items resourceIDSelflinkDelim\<rparr>, cleanup cl w2)"
    by (rule Create_success)
qed

text \<open>
  The witness: in \<open>env_quiet\<close> the item list is empty and Create fails, leaving \<open>d_new\<close>
  as it was; in \<open>env_two_items\<close> Create succeeds and sets the identity.
\<close>

theorem C7_create_failure_sets_no_identity_witness:
  "json_items env_quiet [] = Inr []
   \<and> resourceManifestCreate env_quiet cfg_plain d_new []
       = (Some NoResourcesCreated, d_new, [Exec apply_cmd, Exec get_json_cmd])
   \<and> fst (resourceManifestCreate env_quiet cfg_plain d_new []) \<noteq> None
   \<and> fst (snd (resourceManifestCreate env_quiet cfg_plain d_new [])) = d_new
   \<and> fst (resourceManifestCreate env_two_items cfg_plain d_new []) = None
   \<and> (\<exists>items cl w2. items \<noteq> [] \<and> [] \<notin> set items
        \<and> resourceManifestCreate env_two_items cfg_plain d_new []
            = (None, d_new\<lparr>Id_str := Join items resourceIDSelflinkDelim\<rparr>, cleanup cl w2))"
proof -
  have k: "kubeconfigPath env_quiet cfg_plain [] = (([], None, None), [])" by code_simp
  have a: "run env_quiet ((kubectl cfg_plain [] [''apply'', ''-f'', ''-''])
                            \<lparr>Stdin := Some (content d_new)\<rparr>) []
         = ((None, []), [Exec apply_cmd])" by code_simp
  have g: "run env_quiet ((kubectl cfg_plain [] [''get'', ''-f'', ''-'', ''-o'', ''json''])
                            \<lparr>Stdin := Some (content d_new)\<rparr>) [Exec apply_cmd]
         = ((None, []), [Exec apply_cmd, Exec get_json_cmd])"
    by code_simp
  have j: "json_items env_quiet [] = Inr []" by code_simp
  have s: "fst (resourceManifestCreate env_two_items cfg_plain d_new []) = None" by code_simp
  note Q = C7_create_failure_sets_no_identity
         [of env_quiet cfg_plain "[]" "[]" None "[]" d_new "[]" "[Exec apply_cmd]" "[]"
             "[Exec apply_cmd, Exec get_json_cmd]"]
  from Q k a g j
  have c1: "resourceManifestCreate env_quiet cfg_plain d_new []
       = (Some NoResourcesCreated, d_new, cleanup None [Exec apply_cmd, Exec get_json_cmd])"
    by blast
  then have c1': "resourceManifestCreate env_quiet cfg_plain d_new []
       = (Some NoResourcesCreated, d_new, [Exec apply_cmd, Exec get_json_cmd])"
    by (simp add: cleanup_def)
  then have f: "fst (resourceManifestCreate env_quiet cfg_plain d_new []) \<noteq> None" by simp
  with Q have c2: "fst (snd (resourceManifestCreate env_quiet cfg_plain d_new [])) = d_new"
    by blast
  from C7_create_failure_sets_no_identity [of env_two_items cfg_plain "[]" _ _ _ d_new] s
  have c3: "\<exists>items cl w2. items \<noteq> [] \<and> [] \<notin> set items
        \<and> resourceManifestCreate env_two_items cfg_plain d_new []
            = (None, d_new\<lparr>Id_str := Join items resourceIDSelflinkDelim\<rparr>, cleanup cl w2)"
    by blast
  from j c1' f c2 s c3 show ?thesis by (intro conjI)
qed

text \<open>
  C8.  Decoding the self-link \<open>apps/v1/namespaces/foo/deployments/bar\<close> gives the
  resource \<open>deployments/bar\<close>, the namespace \<open>foo\<close> and \<open>ok = true\<close>.
\<close>

theorem C8_decode_example:
  "resourceFromSelflink ''apps/v1/namespaces/foo/deployments/bar''
     = (''deployments/bar'', ''foo'', True)"
  by code_simp

text \<open>
  C9.  Update leaves the resource data, and so the identity, as it was, whether it
  succeeds or fails; the only subprocess it can run is the apply step with the manifest
  content on standard input (none when the credentials do not resolve).
\<close>

theorem C9_update_keeps_identity:
  "fst (snd (resourceManifestUpdate env m d w)) = d
   \<and> Id_str (fst (snd (resourceManifestUpdate env m d w))) = Id_str d
   \<and> (subprocesses (snd (snd (resourceManifestUpdate env m d w))) = subprocesses w
      \<or> (\<exists>path. subprocesses (snd (snd (resourceManifestUpdate env m d w)))
            = subprocesses w @ [Exec ((kubectl m path [''apply'', ''-f'', ''-''])
                                         \<lparr>Stdin := Some (content d)\<rparr>)]))"
proof -
  obtain path cl e w0 where k: "kubeconfigPath env m w = ((path, cl, e), w0)"
    by (metis prod.exhaust)
  then have s0: "subprocesses w0 = subprocesses w" by (rule subprocesses_kubeconfigPath)
  show ?thesis
  proof (cases e)
    case (Some err)
    with k s0 show ?thesis by (simp add: Update_unfold)
  next
    case None
    let ?cmd = "(kubectl m path [''apply'', ''-f'', ''-''])\<lparr>Stdin := Some (content d)\<rparr>"
    obtain r w1 where r: "run env ?cmd w0 = (r, w1)" by (metis prod.exhaust)
    then have "subprocesses w1 = subprocesses w0 @ [Exec ?cmd]" by (rule subprocesses_run)
    with k None r s0 show ?thesis by (auto simp add: Update_unfold)
  qed
qed

text \<open>
  C10.  When the segment \<open>namespaces\<close> occurs more than once in a self-link, the
  namespace is the segment that follows its first occurrence.  When \<open>namespaces\<close> occurs
  only as the last segment, the namespace is the empty string, and this is no error:
  with at least two segments, \<open>ok\<close> is true exactly when the resource percent-decodes.
\<close>

theorem C10_namespace_first_occurrence:
  assumes "parts = Split s ''/''"
  shows "(i < j \<and> j < length parts \<and> parts ! i = ''namespaces'' \<and> parts ! j = ''namespaces''
            \<and> (\<forall>k<i. parts ! k \<noteq> ''namespaces'')
          \<longrightarrow> fst (snd (resourceFromSelflink s)) = parts ! (i + 1))
       \<and> (last parts = ''namespaces'' \<and> ''namespaces'' \<notin> set (butlast parts)
          \<longrightarrow> fst (snd (resourceFromSelflink s)) = []
              \<and> (2 \<le> length parts \<longrightarrow>
                   snd (snd (resourceFromSelflink s)) =
                     (snd (PathUnescape (parts ! (length parts - 2) @ ''/'' @ ''namespaces''))
                        = None)))"
proof (intro conjI impI)
  assume a: "i < j \<and> j < length parts \<and> parts ! i = ''namespaces'' \<and> parts ! j = ''namespaces''
            \<and> (\<forall>k<i. parts ! k \<noteq> ''namespaces'')"
  then have "namespace_loop parts 0 = parts ! (i + 1)"
    by (intro namespace_loop_found) auto
  moreover from a have "\<not> length parts < 2" by simp
  ultimately show "fst (snd (resourceFromSelflink s)) = parts ! (i + 1)"
    using assms by (simp add: resourceFromSelflink_namespace)
next
  assume b: "last parts = ''namespaces'' \<and> ''namespaces'' \<notin> set (butlast parts)"
  have "\<forall>k. 0 \<le> k \<and> k + 1 < length parts \<longrightarrow> parts ! k \<noteq> ''namespaces''"
  proof (intro allI impI)
    fix k assume "0 \<le> k \<and> k + 1 < length parts"
    then have "k < length (butlast parts)" by simp
    then have "butlast parts ! k \<in> set (butlast parts)" by (rule nth_mem)
    moreover have "butlast parts ! k = parts ! k"
      using \<open>k < length (butlast parts)\<close> by (simp add: nth_butlast)
    ultimately show "parts ! k \<noteq> ''namespaces''" using b by auto
  qed
  then have "namespace_loop parts 0 = []" by (rule namespace_loop_none)
  then show "fst (snd (resourceFromSelflink s)) = []"
    using assms by (simp add: resourceFromSelflink_namespace)
next
  assume b: "last parts = ''namespaces'' \<and> ''namespaces'' \<notin> set (butlast parts)"
    and l: "2 \<le> length parts"
  from l have "parts \<noteq> []" by auto
  then have "parts ! (length parts - 1) = last parts" by (simp add: last_conv_nth)
  with b l assms show "snd (snd (resourceFromSelflink s)) =
     (snd (PathUnescape (parts ! (length parts - 2) @ ''/'' @ ''namespaces'')) = None)"
    by (simp add: resourceFromSelflink_ok)
qed

text \<open>
  The witness: in \<open>namespaces/foo/namespaces/bar/pods/p\<close> the namespace is \<open>foo\<close>; in
  \<open>api/v1/namespaces\<close> the namespace is empty and \<open>ok\<close> is true.
\<close>

theorem C10_namespace_first_occurrence_witness:
  "Split ''namespaces/foo/namespaces/bar/pods/p'' ''/''
     = [''namespaces'', ''foo'', ''namespaces'', ''bar'', ''pods'', ''p'']
   \<and> fst (snd (resourceFromSelflink ''namespaces/foo/namespaces/bar/pods/p'')) = ''foo''
   \<and> Split ''api/v1/namespaces'' ''/'' = [''api'', ''v1'', ''namespaces'']
   \<and> fst (snd (resourceFromSelflink ''api/v1/namespaces'')) = []
   \<and> snd (snd (resourceFromSelflink ''api/v1/namespaces''))"
proof -
  let ?p1 = "[''namespaces'', ''foo'', ''namespaces'', ''bar'', ''pods'', ''p'']"
  let ?p2 = "[''api'', ''v1'', ''namespaces'']"
  have s1: "?p1 = Split ''namespaces/foo/namespaces/bar/pods/p'' ''/''" by code_simp
  have s2: "?p2 = Split ''api/v1/namespaces'' ''/''" by code_simp
  have u: "snd (PathUnescape ''v1/namespaces'') = None" by code_simp
  have a1: "(0::nat) < 2 \<and> 2 < length ?p1 \<and> ?p1 ! 0 = ''namespaces'' \<and> ?p1 ! 2 = ''namespaces''
              \<and> (\<forall>k<0::nat. ?p1 ! k \<noteq> ''namespaces'')"
    by simp
  from C10_namespace_first_occurrence [OF s1, of 0 2] a1
  have "fst (snd (resourceFromSelflink ''namespaces/foo/namespaces/bar/pods/p'')) = ?p1 ! (0 + 1)"
    by blast
  then have c1: "fst (snd (resourceFromSelflink ''namespaces/foo/namespaces/bar/pods/p'')) = ''foo''"
    by simp
  have a2: "last ?p2 = ''namespaces'' \<and> ''namespaces'' \<notin> set (butlast ?p2)" by simp
  have a3: "2 \<le> length ?p2" by simp
  from C10_namespace_first_occurrence [OF s2, of 0 0] a2 a3
  have c2: "fst (snd (resourceFromSelflink ''api/v1/namespaces'')) = []"
    and "snd (snd (resourceFromSelflink ''api/v1/namespaces'')) =
           (snd (PathUnescape (?p2 ! (length ?p2 - 2) @ ''/'' @ ''namespaces'')) = None)"
    by blast+
  then have c3: "snd (snd (resourceFromSelflink ''api/v1/namespaces''))"
    using u by simp
  from s1 [symmetric] c1 s2 [symmetric] c2 c3 show ?thesis by (intro conjI)
qed

end
